theory Spec2Isabelle
  imports Main
begin

section \<open>The syntax tree of obvious\_cleanup.py\<close>

text \<open>
  \<^verbatim>\<open>obvious_cleanup.py\<close> registers five selector patterns, each with one callback that edits
  the concrete syntax tree of a Python file.  The tree is the one of fissix (lib2to3):
  a \<^emph>\<open>Leaf\<close> carries a token type, the token text, the \<^emph>\<open>prefix\<close> (white space and comments
  in front of the token) and the line number of the token; a \<^emph>\<open>Node\<close> carries a grammar
  symbol and its children.

  Token types and grammar symbols are both plain integers in fissix, and the callbacks
  assign to \<^verbatim>\<open>.type\<close>, so one type of labels serves both.  Only the labels that the
  program names are constructors; every other label is \<open>TOKEN_other\<close> or \<open>syms_other\<close>
  with its name.
\<close>

datatype ntype =
    TOKEN_NAME | TOKEN_NUMBER | TOKEN_STRING
  | TOKEN_LPAR | TOKEN_RPAR | TOKEN_LSQB | TOKEN_RSQB | TOKEN_LBRACE | TOKEN_RBRACE
  | TOKEN_COLON | TOKEN_COMMA | TOKEN_EQUAL
  | TOKEN_EQEQUAL | TOKEN_NOTEQUAL | TOKEN_LESS | TOKEN_GREATER
  | TOKEN_LESSEQUAL | TOKEN_GREATEREQUAL
  | TOKEN_other string
  | syms_not_test | syms_comparison | syms_comp_op | syms_power | syms_trailer
  | syms_atom | syms_listmaker | syms_argument | syms_testlist_gexp
  | syms_comp_for | syms_comp_if | syms_dictsetmaker | syms_expr_stmt | syms_factor
  | syms_other string

datatype tree =
    Leaf ntype string string nat
  | Node ntype "tree list"

text \<open>The arguments of \<open>Leaf\<close> are the type, the text, the prefix and the line number;
  those of \<open>Node\<close> are the type and the children.\<close>

fun ntype_of :: "tree \<Rightarrow> ntype" where
  "ntype_of (Leaf ty v p n) = ty"
| "ntype_of (Node ty cs) = ty"

text \<open>A leaf has the empty tuple as its \<^verbatim>\<open>children\<close>.\<close>

fun children :: "tree \<Rightarrow> tree list" where
  "children (Leaf ty v p n) = []"
| "children (Node ty cs) = cs"

text \<open>\<^verbatim>\<open>str(node)\<close>: a leaf is its prefix followed by its text, a node the concatenation
  of its children.\<close>

fun str_tree :: "tree \<Rightarrow> string" where
  "str_tree (Leaf ty v p n) = p @ v"
| "str_tree (Node ty cs) = concat (map str_tree cs)"

text \<open>The \<^verbatim>\<open>prefix\<close> property: of a node it is the prefix of its first child, and the
  empty string when there is no child; setting it on a node sets it on the first child.\<close>

fun get_prefix :: "tree \<Rightarrow> string" where
  "get_prefix (Leaf ty v p n) = p"
| "get_prefix (Node ty []) = []"
| "get_prefix (Node ty (c # cs)) = get_prefix c"

fun set_prefix :: "string \<Rightarrow> tree \<Rightarrow> tree" where
  "set_prefix q (Leaf ty v p n) = Leaf ty v q n"
| "set_prefix q (Node ty []) = Node ty []"
| "set_prefix q (Node ty (c # cs)) = Node ty (set_prefix q c # cs)"

text \<open>\<^verbatim>\<open>get_lineno()\<close> walks down the first children to a leaf; a node without children
  has no line number (\<^verbatim>\<open>None\<close>).\<close>

fun get_lineno :: "tree \<Rightarrow> nat option" where
  "get_lineno (Leaf ty v p n) = Some n"
| "get_lineno (Node ty []) = None"
| "get_lineno (Node ty (c # cs)) = get_lineno c"

text \<open>\<^verbatim>\<open>clone()\<close> is a deep copy that keeps type, text, prefix and line number: as a value,
  the same tree.\<close>

definition clone :: "tree \<Rightarrow> tree" where
  "clone t = t"

text \<open>\<^verbatim>\<open>.type = ty\<close> on a tree object.\<close>

fun set_type :: "ntype \<Rightarrow> tree \<Rightarrow> tree" where
  "set_type ty (Leaf ty0 v p n) = Leaf ty v p n"
| "set_type ty (Node ty0 cs) = Node ty cs"

text \<open>\<^verbatim>\<open>Node(type, children, prefix=q)\<close>: the constructor assigns the prefix when one is
  given.  \<^verbatim>\<open>Leaf(type, value, prefix=q)\<close> without a context has line number 0 and, without
  a prefix, the empty prefix.\<close>

definition mk_node :: "ntype \<Rightarrow> tree list \<Rightarrow> string option \<Rightarrow> tree" where
  "mk_node ty cs q = (case q of None \<Rightarrow> Node ty cs | Some q' \<Rightarrow> set_prefix q' (Node ty cs))"

definition mk_leaf :: "ntype \<Rightarrow> string \<Rightarrow> string option \<Rightarrow> tree" where
  "mk_leaf ty v q = Leaf ty v (case q of None \<Rightarrow> [] | Some q' \<Rightarrow> q') 0"

subsection \<open>Errors, paths and captures\<close>

text \<open>
  The exceptions the callbacks can raise.  \<open>NoSuchNode\<close> is not an exception of the
  program: it is the answer of the model when a path does not lead to a node below the
  matched node, which no capture of a match does, or when the program asks for the parent
  or the next sibling of the matched node itself, which the model does not hold.
\<close>

datatype error = KeyError | IndexError | TypeError | AttributeError | NoSuchNode

definition bind_res :: "error + 'a \<Rightarrow> ('a \<Rightarrow> error + 'b) \<Rightarrow> error + 'b" where
  "bind_res m f = (case m of Inl e \<Rightarrow> Inl e | Inr v \<Rightarrow> f v)"

text \<open>
  The callbacks get references to nodes of the tree and replace them in place.  A reference
  is modelled by the path of child indices from the matched node (\<^verbatim>\<open>node\<close>) down to the
  object, so that a replacement made through one reference is seen through the others.
\<close>

type_synonym path = "nat list"

fun get_at :: "tree \<Rightarrow> path \<Rightarrow> error + tree" where
  "get_at t [] = Inr t"
| "get_at t (i # p) =
     (if i < length (children t) then get_at (children t ! i) p else Inl NoSuchNode)"

fun update_at :: "(tree \<Rightarrow> tree) \<Rightarrow> tree \<Rightarrow> path \<Rightarrow> error + tree" where
  "update_at f t [] = Inr (f t)"
| "update_at f (Leaf ty v q n) (i # p) = Inl NoSuchNode"
| "update_at f (Node ty cs) (i # p) =
     (if i < length cs
      then (case update_at f (cs ! i) p of
              Inl e \<Rightarrow> Inl e
            | Inr c \<Rightarrow> Inr (Node ty (cs[i := c])))
      else Inl NoSuchNode)"

text \<open>\<^verbatim>\<open>x.replace(new)\<close> puts \<open>new\<close> where \<open>x\<close> is in the child list of its parent.\<close>

definition replace_at :: "tree \<Rightarrow> path \<Rightarrow> tree \<Rightarrow> error + tree" where
  "replace_at t p new = update_at (\<lambda>_. new) t p"

text \<open>\<^verbatim>\<open>x.children[i]\<close>: the reference to the i-th child, \<^verbatim>\<open>IndexError\<close> when there is
  none.\<close>

definition child_ref :: "tree \<Rightarrow> path \<Rightarrow> nat \<Rightarrow> error + path" where
  "child_ref t p i =
     bind_res (get_at t p) (\<lambda>x. if i < length (children x) then Inr (p @ [i]) else Inl IndexError)"

text \<open>
  A capture set maps a capture name to one node or to a list of nodes.  In the pattern
  language of fissix a name in front of a token, of a node pattern, or of a parenthesised
  group with a single alternative names that one pattern and is bound to the node; a name
  in front of a parenthesised group of several alternatives (or of a repetition) names a
  wildcard and is bound to the list of the nodes it matched.
\<close>

datatype capval = One path | Many "path list"

type_synonym capture = "string \<rightharpoonup> capval"

text \<open>\<^verbatim>\<open>capture[name]\<close>, \<^verbatim>\<open>capture.get(name) or None\<close>, \<^verbatim>\<open>value[0]\<close>, and the use of a
  captured value as a node (an attribute of a node read from a list is an
  \<^verbatim>\<open>AttributeError\<close>).\<close>

definition lookup :: "capture \<Rightarrow> string \<Rightarrow> error + capval" where
  "lookup capture name = (case capture name of None \<Rightarrow> Inl KeyError | Some v \<Rightarrow> Inr v)"

definition get_or_None :: "capture \<Rightarrow> string \<Rightarrow> capval option" where
  "get_or_None capture name =
     (case capture name of None \<Rightarrow> None | Some (Many []) \<Rightarrow> None | Some v \<Rightarrow> Some v)"

definition subscript0 :: "capval \<Rightarrow> error + capval" where
  "subscript0 v =
     (case v of One p \<Rightarrow> Inl TypeError
      | Many [] \<Rightarrow> Inl IndexError
      | Many (p # ps) \<Rightarrow> Inr (One p))"

definition as_node :: "capval \<Rightarrow> error + path" where
  "as_node v = (case v of One p \<Rightarrow> Inr p | Many ps \<Rightarrow> Inl AttributeError)"

text \<open>The module-level dictionary \<^verbatim>\<open>flags\<close>; \<^verbatim>\<open>main\<close> stores the \<^verbatim>\<open>--debug\<close> option in
  it.\<close>

type_synonym flags = "string \<rightharpoonup> bool"

text \<open>What a callback leaves behind: the tree that stands where the matched node stood,
  and the lines it printed on standard output.\<close>

type_synonym outcome = "error + (tree \<times> string list)"

text \<open>The lines on standard output after a callback.  The only callback that prints does
  so before it replaces anything, and its replacement does not fail on a match; so the
  outcome with an exception carries no line.\<close>

definition printed :: "outcome \<Rightarrow> string list" where
  "printed res = (case res of Inl e \<Rightarrow> [] | Inr (t, out) \<Rightarrow> out)"

subsection \<open>Pattern atoms\<close>

text \<open>A quoted token of a pattern matches a leaf of the token's type with exactly that
  text; an upper-case token name matches every leaf of that type; a symbol name without
  details matches every tree of that type.\<close>

fun leaf_is :: "ntype \<Rightarrow> string \<Rightarrow> tree \<Rightarrow> bool" where
  "leaf_is ty0 v0 (Leaf ty v p n) = (ty = ty0 \<and> v = v0)"
| "leaf_is ty0 v0 (Node ty cs) = False"

fun leaf_of_type :: "ntype \<Rightarrow> tree \<Rightarrow> bool" where
  "leaf_of_type ty0 (Leaf ty v p n) = (ty = ty0)"
| "leaf_of_type ty0 (Node ty cs) = False"

section \<open>Rule 1: not a == b\<close>

text \<open>\<^verbatim>\<open>kw(name)\<close> makes a NAME leaf with prefix one blank.\<close>

definition kw :: "string \<Rightarrow> tree" where
  "kw name = mk_leaf TOKEN_NAME name (Some '' '')"

definition OPERATOR_INVERSIONS :: "string \<rightharpoonup> tree" where
  "OPERATOR_INVERSIONS = map_of
     [(''=='', mk_leaf TOKEN_NOTEQUAL ''!='' (Some '' '')),
      (''!='', mk_leaf TOKEN_EQEQUAL ''=='' (Some '' '')),
      (''<'', mk_leaf TOKEN_GREATEREQUAL ''>='' (Some '' '')),
      (''>'', mk_leaf TOKEN_LESSEQUAL ''<='' (Some '' '')),
      (''<='', mk_leaf TOKEN_GREATER ''>'' (Some '' '')),
      (''>='', mk_leaf TOKEN_LESS ''<'' (Some '' '')),
      (''in'', mk_node syms_comp_op [kw ''not'', kw ''in''] (Some '' '')),
      (''not in'', kw ''in''),
      (''is'', mk_node syms_comp_op [kw ''is'', kw ''not''] (Some '' '')),
      (''is not'', kw ''is'')]"

text \<open>\<^verbatim>\<open>str.strip()\<close> removes the white space at both ends.  A \<open>char\<close> stands for a
  code point below 256.  The white space of Python among these: tab, line feed, vertical
  tab, form feed, carriage return, the four separators 0x1C to 0x1F, the blank, the next
  line control 0x85 and the no-break space 0xA0.\<close>

definition isspace :: "char \<Rightarrow> bool" where
  "isspace c = (c \<in> set [CHR 0x09, CHR 0x0A, CHR 0x0B, CHR 0x0C, CHR 0x0D,
                          CHR 0x1C, CHR 0x1D, CHR 0x1E, CHR 0x1F, CHR 0x20,
                          CHR 0x85, CHR 0xA0])"

definition strip :: "string \<Rightarrow> string" where
  "strip s = rev (dropWhile isspace (rev (dropWhile isspace s)))"

definition invert_operator :: "tree \<Rightarrow> error + tree" where
  "invert_operator op =
     (case OPERATOR_INVERSIONS (strip (str_tree op)) of
        None \<Rightarrow> Inl KeyError
      | Some t \<Rightarrow> Inr (clone t))"

text \<open>The selector \<^verbatim>\<open>not_test< "not" comparison=comparison< any* > >\<close>: a tree of type
  \<open>not_test\<close> with two children, the token \<^verbatim>\<open>not\<close> and a tree of type \<open>comparison\<close>
  with children of any number and shape.\<close>

definition match_not_test :: "tree \<Rightarrow> capture option" where
  "match_not_test t =
     (if ntype_of t = syms_not_test then
        (case children t of
           [n, c] \<Rightarrow>
             if leaf_is TOKEN_NAME ''not'' n \<and> ntype_of c = syms_comparison
             then Some (map_of [(''comparison'', One [1])])
             else None
         | _ \<Rightarrow> None)
      else None)"

definition simplify_not_operators :: "flags \<Rightarrow> tree \<Rightarrow> capture \<Rightarrow> outcome" where
  "simplify_not_operators flags node capture =
     bind_res (lookup capture ''comparison'') (\<lambda>cv.
     bind_res (as_node cv) (\<lambda>cp.
     bind_res (child_ref node cp 1) (\<lambda>op_ref.
     bind_res (get_at node op_ref) (\<lambda>op.
     bind_res (invert_operator op) (\<lambda>new_op.
     bind_res (replace_at node op_ref new_op) (\<lambda>node1.
     bind_res (child_ref node1 [] 1) (\<lambda>rest_ref.
     bind_res (get_at node1 rest_ref) (\<lambda>rest.
       Inr (set_prefix (get_prefix node1) (clone rest), [])))))))))"

text \<open>A rule is a selector with its callback: \<open>None\<close> when the selector does not match the
  tree, otherwise what the callback leaves.\<close>

definition rule_not :: "flags \<Rightarrow> tree \<Rightarrow> outcome option" where
  "rule_not flags t =
     (case match_not_test t of
        None \<Rightarrow> None
      | Some capture \<Rightarrow> Some (simplify_not_operators flags t capture))"


section \<open>Rule 2: a == None\<close>

text \<open>The selector
  \<^verbatim>\<open>comparison=comparison< ( a=any op=( "==" | "!=" ) none="None" ) | ( none="None" op=( "==" | "!=" ) a=any ) >\<close>:
  a tree of type \<open>comparison\<close> with exactly three children, the middle one the token
  \<^verbatim>\<open>==\<close> or \<^verbatim>\<open>!=\<close>, and the last one (first alternative) or the first one (second
  alternative) the name \<^verbatim>\<open>None\<close>.  \<^verbatim>\<open>op\<close> names a group of two alternatives and is
  bound to a list.\<close>

definition is_eq_op :: "tree \<Rightarrow> bool" where
  "is_eq_op t = (leaf_is TOKEN_EQEQUAL ''=='' t \<or> leaf_is TOKEN_NOTEQUAL ''!='' t)"

definition match_none_comparison :: "tree \<Rightarrow> capture option" where
  "match_none_comparison t =
     (if ntype_of t = syms_comparison then
        (case children t of
           [x, m, y] \<Rightarrow>
             if is_eq_op m \<and> leaf_is TOKEN_NAME ''None'' y
             then Some (map_of [(''comparison'', One []), (''a'', One [0]),
                                (''op'', Many [[1]]), (''none'', One [2])])
             else if leaf_is TOKEN_NAME ''None'' x \<and> is_eq_op m
             then Some (map_of [(''comparison'', One []), (''none'', One [0]),
                                (''op'', Many [[1]]), (''a'', One [2])])
             else None
         | _ \<Rightarrow> None)
      else None)"

text \<open>\<^verbatim>\<open>print(op)\<close> writes \<^verbatim>\<open>str(op)\<close> as one line of standard output.\<close>

definition simplify_none_operand :: "flags \<Rightarrow> tree \<Rightarrow> capture \<Rightarrow> outcome" where
  "simplify_none_operand flags node capture =
     bind_res (lookup capture ''op'') (\<lambda>ov.
     bind_res (subscript0 ov) (\<lambda>ov0.
     bind_res (as_node ov0) (\<lambda>op_ref.
     bind_res (get_at node op_ref) (\<lambda>op.
       if ntype_of op = TOKEN_EQEQUAL
       then bind_res (replace_at node op_ref (kw ''is''))
              (\<lambda>node1. Inr (node1, [str_tree op]))
       else bind_res (replace_at node op_ref
                        (mk_node syms_comp_op [kw ''is'', kw ''not''] None))
              (\<lambda>node1. Inr (node1, [str_tree op]))))))"

definition rule_none :: "flags \<Rightarrow> tree \<Rightarrow> outcome option" where
  "rule_none flags t =
     (case match_none_comparison t of
        None \<Rightarrow> None
      | Some capture \<Rightarrow> Some (simplify_none_operand flags t capture))"

section \<open>Rule 3: dict and set calls over a comprehension\<close>

text \<open>Three children, the first the token \<open>lv\<close> of type \<open>lt\<close> and the last the token
  \<open>rv\<close> of type \<open>rt\<close>: the middle child.\<close>

definition enclosed :: "ntype \<Rightarrow> string \<Rightarrow> ntype \<Rightarrow> string \<Rightarrow> tree \<Rightarrow> tree option" where
  "enclosed lt lv rt rv t =
     (case children t of
        [l, x, r] \<Rightarrow> if leaf_is lt lv l \<and> leaf_is rt rv r then Some x else None
      | _ \<Rightarrow> None)"

text \<open>\<^verbatim>\<open>atom< "(" x ")" >\<close> and \<^verbatim>\<open>atom< "[" x "]" >\<close>.\<close>

definition paren_atom :: "tree \<Rightarrow> tree option" where
  "paren_atom t =
     (if ntype_of t = syms_atom then enclosed TOKEN_LPAR ''('' TOKEN_RPAR '')'' t else None)"

definition bracket_atom :: "tree \<Rightarrow> tree option" where
  "bracket_atom t =
     (if ntype_of t = syms_atom then enclosed TOKEN_LSQB ''['' TOKEN_RSQB '']'' t else None)"

text \<open>A tree of type \<open>ty\<close> with exactly two children.\<close>

definition pair_of :: "ntype \<Rightarrow> tree \<Rightarrow> (tree \<times> tree) option" where
  "pair_of ty t =
     (if ntype_of t = ty then
        (case children t of [a, b] \<Rightarrow> Some (a, b) | _ \<Rightarrow> None)
      else None)"

text \<open>\<^verbatim>\<open>kv=atom< "(" testlist_gexp< k=any "," v=any > ")" >\<close>.\<close>

definition match_kv :: "tree \<Rightarrow> bool" where
  "match_kv t =
     (case paren_atom t of
        None \<Rightarrow> False
      | Some g \<Rightarrow>
          ntype_of g = syms_testlist_gexp \<and>
          (case children g of [k, c, v] \<Rightarrow> leaf_is TOKEN_COMMA '','' c | _ \<Rightarrow> False))"

definition kv_captures :: "path \<Rightarrow> (string \<times> capval) list" where
  "kv_captures p = [(''kv'', One p), (''k'', One (p @ [1, 0])), (''v'', One (p @ [1, 2]))]"

text \<open>\<^verbatim>\<open>forloop=( comp_for< any* "in" any [ ifpart=comp_if< any* > ] > )\<close>: a tree of type
  \<open>comp_for\<close> whose children end with the token \<^verbatim>\<open>in\<close>, one more child and, optionally, a
  tree of type \<open>comp_if\<close>.  The matcher tries the shorter \<^verbatim>\<open>any*\<close> first, that is the
  reading with the optional part.  The result says whether \<^verbatim>\<open>ifpart\<close> is bound.  The
  group after \<^verbatim>\<open>forloop=\<close> has a single alternative, so \<^verbatim>\<open>forloop\<close> is bound to the node.\<close>

definition match_forloop :: "tree \<Rightarrow> bool option" where
  "match_forloop t =
     (let cs = children t; n = length cs in
      if ntype_of t \<noteq> syms_comp_for then None
      else if 3 \<le> n \<and> leaf_is TOKEN_NAME ''in'' (cs ! (n - 3))
              \<and> ntype_of (cs ! (n - 1)) = syms_comp_if then Some True
      else if 2 \<le> n \<and> leaf_is TOKEN_NAME ''in'' (cs ! (n - 2)) then Some False
      else None)"

definition forloop_captures :: "path \<Rightarrow> tree \<Rightarrow> bool \<Rightarrow> (string \<times> capval) list" where
  "forloop_captures p t with_if =
     (if with_if then [(''ifpart'', One (p @ [length (children t) - 1])), (''forloop'', One p)]
      else [(''forloop'', One p)])"

text \<open>\<^verbatim>\<open>power< NAME trailer< '(' x ')' > >\<close>: a call of the name with \<open>x\<close> between the
  parentheses; \<open>x\<close> is at path \<open>[1, 1]\<close>.\<close>

definition call_of :: "string \<Rightarrow> tree \<Rightarrow> tree option" where
  "call_of name t =
     (case pair_of syms_power t of
        None \<Rightarrow> None
      | Some (f, tr) \<Rightarrow>
          if leaf_is TOKEN_NAME name f \<and> ntype_of tr = syms_trailer
          then enclosed TOKEN_LPAR ''('' TOKEN_RPAR '')'' tr
          else None)"

text \<open>The three alternatives for the argument,
  \<^verbatim>\<open>atom< "[" listmaker< first forloop > "]" >\<close>, \<^verbatim>\<open>argument< first forloop >\<close> and
  \<^verbatim>\<open>atom< "(" testlist_gexp< first forloop > ")" >\<close>, in this order: the path of the tree
  that holds the pair, and the pair.  No tree has two of the three shapes.\<close>

definition comprehension_arg :: "tree \<Rightarrow> (path \<times> tree \<times> tree) option" where
  "comprehension_arg x =
     (case (case bracket_atom x of None \<Rightarrow> None | Some m \<Rightarrow> pair_of syms_listmaker m) of
        Some (a, fl) \<Rightarrow> Some ([1, 1, 1], a, fl)
      | None \<Rightarrow>
     (case pair_of syms_argument x of
        Some (a, fl) \<Rightarrow> Some ([1, 1], a, fl)
      | None \<Rightarrow>
     (case (case paren_atom x of None \<Rightarrow> None | Some m \<Rightarrow> pair_of syms_testlist_gexp m) of
        Some (a, fl) \<Rightarrow> Some ([1, 1, 1], a, fl)
      | None \<Rightarrow> None)))"


text \<open>The selector of the dict rule: a call of \<^verbatim>\<open>dict\<close> whose argument is one of the three
  shapes over \<^verbatim>\<open>kv\<close> and \<^verbatim>\<open>forloop\<close>.\<close>

definition match_dict :: "tree \<Rightarrow> capture option" where
  "match_dict t =
     (case call_of ''dict'' t of
        None \<Rightarrow> None
      | Some x \<Rightarrow>
     (case comprehension_arg x of
        None \<Rightarrow> None
      | Some (p, a, fl) \<Rightarrow>
          if match_kv a then
            (case match_forloop fl of
               None \<Rightarrow> None
             | Some with_if \<Rightarrow>
                 Some (map_of (kv_captures (p @ [0]) @ forloop_captures (p @ [1]) fl with_if)))
          else None))"

text \<open>The selector of the set rule: the same with \<^verbatim>\<open>set\<close> and \<^verbatim>\<open>arg=any\<close> in the place of
  \<^verbatim>\<open>kv\<close>.\<close>

definition match_set :: "tree \<Rightarrow> capture option" where
  "match_set t =
     (case call_of ''set'' t of
        None \<Rightarrow> None
      | Some x \<Rightarrow>
     (case comprehension_arg x of
        None \<Rightarrow> None
      | Some (p, a, fl) \<Rightarrow>
     (case match_forloop fl of
        None \<Rightarrow> None
      | Some with_if \<Rightarrow>
          Some (map_of ((''arg'', One (p @ [0])) # forloop_captures (p @ [1]) fl with_if)))))"

text \<open>\<^verbatim>\<open>x.parent\<close> and \<^verbatim>\<open>x.get_suffix()\<close>, the prefix of the next sibling (the empty string
  when \<open>x\<close> is the last child).\<close>

definition parent_ref :: "path \<Rightarrow> error + path" where
  "parent_ref p = (if p = [] then Inl NoSuchNode else Inr (butlast p))"

definition get_suffix :: "tree \<Rightarrow> path \<Rightarrow> error + string" where
  "get_suffix t p =
     bind_res (parent_ref p) (\<lambda>pp.
     bind_res (get_at t pp) (\<lambda>par.
       if Suc (last p) < length (children par)
       then Inr (get_prefix (children par ! Suc (last p)))
       else if last p < length (children par) then Inr []
       else Inl NoSuchNode))"

text \<open>\<^verbatim>\<open>forloop.type = syms.comp_for\<close> and, when \<^verbatim>\<open>ifpart\<close> is there,
  \<^verbatim>\<open>ifpart.type = syms.comp_if\<close>: the first steps of both callbacks.  The result is the
  tree after the two assignments and the reference to the for clause.\<close>

definition retype_forloop :: "tree \<Rightarrow> capture \<Rightarrow> error + (tree \<times> path)" where
  "retype_forloop node capture =
     bind_res (lookup capture ''forloop'') (\<lambda>fv.
     bind_res (subscript0 fv) (\<lambda>forloop.
     bind_res (as_node forloop) (\<lambda>for_ref.
     bind_res (update_at (set_type syms_comp_for) node for_ref) (\<lambda>node1.
     bind_res (case get_or_None capture ''ifpart'' of
                 None \<Rightarrow> Inr node1
               | Some iv \<Rightarrow>
                   bind_res (as_node iv) (\<lambda>if_ref.
                     update_at (set_type syms_comp_if) node1 if_ref)) (\<lambda>node2.
       Inr (node2, for_ref))))))"

definition make_dict_comprehension :: "flags \<Rightarrow> tree \<Rightarrow> capture \<Rightarrow> outcome" where
  "make_dict_comprehension flags node capture =
     bind_res (lookup capture ''kv'') (\<lambda>kv.
     bind_res (lookup capture ''k'') (\<lambda>key.
     bind_res (lookup capture ''v'') (\<lambda>val.
     bind_res (retype_forloop node capture) (\<lambda>(node2, for_ref).
     bind_res (as_node key) (\<lambda>key_ref.
     bind_res (get_at node2 key_ref) (\<lambda>key_t.
     bind_res (as_node val) (\<lambda>val_ref.
     bind_res (get_at node2 val_ref) (\<lambda>val_t.
     bind_res (get_at node2 for_ref) (\<lambda>for_t.
     bind_res (as_node kv) (\<lambda>kv_ref.
     bind_res (parent_ref kv_ref) (\<lambda>par_ref.
     bind_res (get_at node2 par_ref) (\<lambda>par.
     bind_res (get_suffix node2 par_ref) (\<lambda>suffix.
       Inr (mk_node syms_atom
              [mk_leaf TOKEN_LBRACE ''{'' None,
               mk_node syms_dictsetmaker
                 [clone key_t, mk_leaf TOKEN_COLON '':'' None, clone val_t, clone for_t]
                 (Some (get_prefix par)),
               mk_leaf TOKEN_RBRACE ''}'' (Some suffix)]
              (Some (get_prefix node2)), []))))))))))))))"

definition make_set_comprehension :: "flags \<Rightarrow> tree \<Rightarrow> capture \<Rightarrow> outcome" where
  "make_set_comprehension flags node capture =
     bind_res (lookup capture ''arg'') (\<lambda>arg.
     bind_res (retype_forloop node capture) (\<lambda>(node2, for_ref).
     bind_res (as_node arg) (\<lambda>arg_ref.
     bind_res (get_at node2 arg_ref) (\<lambda>arg_t.
     bind_res (get_at node2 for_ref) (\<lambda>for_t.
     bind_res (parent_ref arg_ref) (\<lambda>par_ref.
     bind_res (get_at node2 par_ref) (\<lambda>par.
     bind_res (get_suffix node2 par_ref) (\<lambda>suffix.
       Inr (mk_node syms_atom
              [mk_leaf TOKEN_LBRACE ''{'' None,
               mk_node syms_dictsetmaker [clone arg_t, clone for_t] (Some (get_prefix par)),
               mk_leaf TOKEN_RBRACE ''}'' (Some suffix)]
              (Some (get_prefix node2)), [])))))))))"

definition rule_dict :: "flags \<Rightarrow> tree \<Rightarrow> outcome option" where
  "rule_dict flags t =
     (case match_dict t of
        None \<Rightarrow> None
      | Some capture \<Rightarrow> Some (make_dict_comprehension flags t capture))"

definition rule_set :: "flags \<Rightarrow> tree \<Rightarrow> outcome option" where
  "rule_set flags t =
     (case match_set t of
        None \<Rightarrow> None
      | Some capture \<Rightarrow> Some (make_set_comprehension flags t capture))"

section \<open>Rule 4: (a)\<close>

text \<open>The second alternative of the selector admits as \<^verbatim>\<open>inner\<close> one of
  \<^verbatim>\<open>NAME | NUMBER | STRING | factor | atom< "(" any ")" >\<close>.\<close>

definition simple_inner :: "tree \<Rightarrow> bool" where
  "simple_inner i =
     (leaf_of_type TOKEN_NAME i \<or> leaf_of_type TOKEN_NUMBER i \<or> leaf_of_type TOKEN_STRING i
      \<or> ntype_of i = syms_factor \<or> paren_atom i \<noteq> None)"

text \<open>The three alternatives of the selector, tried in this order:
  \<^verbatim>\<open>assignment_form=expr_stmt< any "=" outer=atom< "(" inner=any ")" > >\<close>,
  \<^verbatim>\<open>outer=atom< "(" inner=(NAME | NUMBER | STRING | factor | atom< "(" any ")" >) ")" >\<close>
  and \<^verbatim>\<open>any< "(" outer=atom< "(" inner=testlist_gexp< any comp_for > ")" > ")" >\<close>.\<close>

definition match_assignment_form :: "tree \<Rightarrow> bool" where
  "match_assignment_form t =
     (ntype_of t = syms_expr_stmt \<and>
      (case children t of
         [x, e, a] \<Rightarrow> leaf_is TOKEN_EQUAL ''='' e \<and> paren_atom a \<noteq> None
       | _ \<Rightarrow> False))"

definition match_simple_atom :: "tree \<Rightarrow> bool" where
  "match_simple_atom t =
     (case paren_atom t of None \<Rightarrow> False | Some i \<Rightarrow> simple_inner i)"

definition match_nested_generator :: "tree \<Rightarrow> bool" where
  "match_nested_generator t =
     (case enclosed TOKEN_LPAR ''('' TOKEN_RPAR '')'' t of
        None \<Rightarrow> False
      | Some a \<Rightarrow>
     (case paren_atom a of
        None \<Rightarrow> False
      | Some i \<Rightarrow>
     (case pair_of syms_testlist_gexp i of
        None \<Rightarrow> False
      | Some (x, cf) \<Rightarrow> ntype_of cf = syms_comp_for)))"

definition match_parentheses :: "tree \<Rightarrow> capture option" where
  "match_parentheses t =
     (if match_assignment_form t
      then Some (map_of [(''assignment_form'', One []), (''outer'', One [2]),
                         (''inner'', One [2, 1])])
      else if match_simple_atom t
      then Some (map_of [(''outer'', One []), (''inner'', Many [[1]])])
      else if match_nested_generator t
      then Some (map_of [(''outer'', One [1]), (''inner'', One [1, 1])])
      else None)"

text \<open>\<^verbatim>\<open>isinstance(inner, list)\<close> followed by \<^verbatim>\<open>inner = inner[0]\<close>.\<close>

definition first_if_list :: "capval \<Rightarrow> error + capval" where
  "first_if_list v = (case v of One p \<Rightarrow> Inr v | Many ps \<Rightarrow> subscript0 v)"

definition remove_extra_parentheses :: "flags \<Rightarrow> tree \<Rightarrow> capture \<Rightarrow> outcome" where
  "remove_extra_parentheses flags node0 capture =
     bind_res (lookup capture ''outer'') (\<lambda>ov.
     bind_res (lookup capture ''inner'') (\<lambda>iv.
     bind_res (as_node ov) (\<lambda>node.
     bind_res (child_ref node0 node 0) (\<lambda>c0.
     bind_res (get_at node0 c0) (\<lambda>lpar.
     bind_res (child_ref node0 node 2) (\<lambda>c2.
     bind_res (get_at node0 c2) (\<lambda>rpar.
       if get_lineno lpar \<noteq> get_lineno rpar then Inr (node0, [])
       else
     bind_res (first_if_list iv) (\<lambda>iv0.
     bind_res (as_node iv0) (\<lambda>inner_ref.
     bind_res (get_at node0 inner_ref) (\<lambda>inner.
       if get_or_None capture ''assignment_form'' \<noteq> None
          \<and> ntype_of inner = syms_testlist_gexp
       then Inr (node0, [])
       else
     bind_res (get_at node0 node) (\<lambda>outer.
     bind_res (replace_at node0 node (set_prefix (get_prefix outer) (clone inner)))
       (\<lambda>node1. Inr (node1, [])))))))))))))"

definition rule_parentheses :: "flags \<Rightarrow> tree \<Rightarrow> outcome option" where
  "rule_parentheses flags t =
     (case match_parentheses t of
        None \<Rightarrow> None
      | Some capture \<Rightarrow> Some (remove_extra_parentheses flags t capture))"


section \<open>Running the rules over a file\<close>





text \<open>No selector matches the tree or any tree below it.\<close>

fun nowhere :: "(tree \<Rightarrow> capture option) \<Rightarrow> tree \<Rightarrow> bool" where
  "nowhere m (Leaf ty v p n) = (m (Leaf ty v p n) = None)"
| "nowhere m (Node ty cs) = (m (Node ty cs) = None \<and> (\<forall>c \<in> set cs. nowhere m c))"

text \<open>The parentheses that the selector of rule 4 captures in a tree: whether they are
  on different lines, and whether the tree is one that the rule is to keep, that is a
  match with the parentheses on different lines, or a match of the assignment with a
  \<open>testlist_gexp\<close> between the parentheses.  The question is asked of matches
  only.\<close>

definition lines_differ :: "tree \<Rightarrow> bool" where
  "lines_differ a = (get_lineno (children a ! 0) \<noteq> get_lineno (children a ! 2))"

definition guarded :: "tree \<Rightarrow> bool" where
  "guarded t =
     (if match_assignment_form t
      then lines_differ (children t ! 2)
           \<or> ntype_of (children (children t ! 2) ! 1) = syms_testlist_gexp
      else if match_simple_atom t then lines_differ t
      else if match_nested_generator t then lines_differ (children t ! 1)
      else False)"

text \<open>Every match of rule 4 that the traversal reaches is one to keep: the traversal
  does not go below a match.\<close>

fun kept :: "tree \<Rightarrow> bool" where
  "kept (Leaf ty v p n) = True"
| "kept (Node ty cs) =
     (case match_parentheses (Node ty cs) of
        Some capture \<Rightarrow> guarded (Node ty cs)
      | None \<Rightarrow> (\<forall>c \<in> set cs. kept c))"

text \<open>A tree on which a run has nothing to do: no selector of the rules 1 to 3 matches
  anywhere in it, and the matches of rule 4 that the traversal reaches are to be kept.\<close>

definition settled :: "tree \<Rightarrow> bool" where
  "settled t =
     (nowhere match_not_test t \<and> nowhere match_none_comparison t \<and> nowhere match_dict t
      \<and> nowhere match_set t \<and> kept t)"



section \<open>Example trees\<close>

text \<open>The trees that the parser of fissix builds for the example sources.  The line feed
  is \<open>CHR 0x0A\<close>.  Where a statement is given without the file around it, the tree is the
  one of the statement.\<close>

text \<open>\<^verbatim>\<open>not a == b\<close>\<close>

definition ex_not_eq :: tree where
  "ex_not_eq =
     Node syms_not_test
       [Leaf TOKEN_NAME ''not'' [] 1,
        Node syms_comparison
          [Leaf TOKEN_NAME ''a'' '' '' 1, Leaf TOKEN_EQEQUAL ''=='' '' '' 1,
           Leaf TOKEN_NAME ''b'' '' '' 1]]"

text \<open>\<^verbatim>\<open>not a is not b\<close>\<close>

definition ex_not_is_not :: tree where
  "ex_not_is_not =
     Node syms_not_test
       [Leaf TOKEN_NAME ''not'' [] 1,
        Node syms_comparison
          [Leaf TOKEN_NAME ''a'' '' '' 1,
           Node syms_comp_op [Leaf TOKEN_NAME ''is'' '' '' 1, Leaf TOKEN_NAME ''not'' '' '' 1],
           Leaf TOKEN_NAME ''b'' '' '' 1]]"

text \<open>\<^verbatim>\<open>not a is  not b\<close>, with two blanks between \<^verbatim>\<open>is\<close> and \<^verbatim>\<open>not\<close>\<close>

definition ex_not_is_not_wide :: tree where
  "ex_not_is_not_wide =
     Node syms_not_test
       [Leaf TOKEN_NAME ''not'' [] 1,
        Node syms_comparison
          [Leaf TOKEN_NAME ''a'' '' '' 1,
           Node syms_comp_op [Leaf TOKEN_NAME ''is'' '' '' 1, Leaf TOKEN_NAME ''not'' ''  '' 1],
           Leaf TOKEN_NAME ''b'' '' '' 1]]"

text \<open>\<^verbatim>\<open>not a == b == c\<close>\<close>

definition ex_not_chained :: tree where
  "ex_not_chained =
     Node syms_not_test
       [Leaf TOKEN_NAME ''not'' [] 1,
        Node syms_comparison
          [Leaf TOKEN_NAME ''a'' '' '' 1, Leaf TOKEN_EQEQUAL ''=='' '' '' 1,
           Leaf TOKEN_NAME ''b'' '' '' 1, Leaf TOKEN_EQEQUAL ''=='' '' '' 1,
           Leaf TOKEN_NAME ''c'' '' '' 1]]"

text \<open>\<^verbatim>\<open>x != None\<close> and \<^verbatim>\<open>None == y\<close>\<close>

definition ex_ne_none :: tree where
  "ex_ne_none =
     Node syms_comparison
       [Leaf TOKEN_NAME ''x'' [] 1, Leaf TOKEN_NOTEQUAL ''!='' '' '' 1,
        Leaf TOKEN_NAME ''None'' '' '' 1]"

definition ex_none_eq :: tree where
  "ex_none_eq =
     Node syms_comparison
       [Leaf TOKEN_NAME ''None'' [] 1, Leaf TOKEN_EQEQUAL ''=='' '' '' 1,
        Leaf TOKEN_NAME ''y'' '' '' 1]"

text \<open>\<^verbatim>\<open>dict([(k, v) for k, v in items])\<close>\<close>

definition ex_dict_call :: tree where
  "ex_dict_call =
     Node syms_power
       [Leaf TOKEN_NAME ''dict'' [] 1,
        Node syms_trailer
          [Leaf TOKEN_LPAR ''('' [] 1,
           Node syms_atom
             [Leaf TOKEN_LSQB ''['' [] 1,
              Node syms_listmaker
                [Node syms_atom
                   [Leaf TOKEN_LPAR ''('' [] 1,
                    Node syms_testlist_gexp
                      [Leaf TOKEN_NAME ''k'' [] 1, Leaf TOKEN_COMMA '','' [] 1,
                       Leaf TOKEN_NAME ''v'' '' '' 1],
                    Leaf TOKEN_RPAR '')'' [] 1],
                 Node syms_comp_for
                   [Leaf TOKEN_NAME ''for'' '' '' 1,
                    Node (syms_other ''exprlist'')
                      [Leaf TOKEN_NAME ''k'' '' '' 1, Leaf TOKEN_COMMA '','' [] 1,
                       Leaf TOKEN_NAME ''v'' '' '' 1],
                    Leaf TOKEN_NAME ''in'' '' '' 1,
                    Leaf TOKEN_NAME ''items'' '' '' 1]],
              Leaf TOKEN_RSQB '']'' [] 1],
           Leaf TOKEN_RPAR '')'' [] 1]]"

text \<open>\<^verbatim>\<open>set([a for a in x])\<close>\<close>

definition ex_set_call :: tree where
  "ex_set_call =
     Node syms_power
       [Leaf TOKEN_NAME ''set'' [] 1,
        Node syms_trailer
          [Leaf TOKEN_LPAR ''('' [] 1,
           Node syms_atom
             [Leaf TOKEN_LSQB ''['' [] 1,
              Node syms_listmaker
                [Leaf TOKEN_NAME ''a'' [] 1,
                 Node syms_comp_for
                   [Leaf TOKEN_NAME ''for'' '' '' 1, Leaf TOKEN_NAME ''a'' '' '' 1,
                    Leaf TOKEN_NAME ''in'' '' '' 1, Leaf TOKEN_NAME ''x'' '' '' 1]],
              Leaf TOKEN_RSQB '']'' [] 1],
           Leaf TOKEN_RPAR '')'' [] 1]]"

text \<open>The parenthesised name \<^verbatim>\<open>x\<close> over three lines: an opening parenthesis, a line feed
  and two blanks, \<^verbatim>\<open>x\<close>, a line feed, a closing parenthesis.\<close>

definition ex_multiline :: tree where
  "ex_multiline =
     Node syms_atom
       [Leaf TOKEN_LPAR ''('' [] 1,
        Leaf TOKEN_NAME ''x'' [CHR 0x0A, CHR '' '', CHR '' ''] 2,
        Leaf TOKEN_RPAR '')'' [CHR 0x0A] 3]"

text \<open>\<^verbatim>\<open>a = (b, c)\<close>, \<^verbatim>\<open>a = (b for c in d)\<close> and \<^verbatim>\<open>a = (b + c)\<close>\<close>

definition ex_assign_tuple :: tree where
  "ex_assign_tuple =
     Node syms_expr_stmt
       [Leaf TOKEN_NAME ''a'' [] 1, Leaf TOKEN_EQUAL ''='' '' '' 1,
        Node syms_atom
          [Leaf TOKEN_LPAR ''('' '' '' 1,
           Node syms_testlist_gexp
             [Leaf TOKEN_NAME ''b'' [] 1, Leaf TOKEN_COMMA '','' [] 1,
              Leaf TOKEN_NAME ''c'' '' '' 1],
           Leaf TOKEN_RPAR '')'' [] 1]]"

definition ex_assign_generator :: tree where
  "ex_assign_generator =
     Node syms_expr_stmt
       [Leaf TOKEN_NAME ''a'' [] 1, Leaf TOKEN_EQUAL ''='' '' '' 1,
        Node syms_atom
          [Leaf TOKEN_LPAR ''('' '' '' 1,
           Node syms_testlist_gexp
             [Leaf TOKEN_NAME ''b'' [] 1,
              Node syms_comp_for
                [Leaf TOKEN_NAME ''for'' '' '' 1, Leaf TOKEN_NAME ''c'' '' '' 1,
                 Leaf TOKEN_NAME ''in'' '' '' 1, Leaf TOKEN_NAME ''d'' '' '' 1]],
           Leaf TOKEN_RPAR '')'' [] 1]]"

definition ex_assign_sum :: tree where
  "ex_assign_sum =
     Node syms_expr_stmt
       [Leaf TOKEN_NAME ''a'' [] 1, Leaf TOKEN_EQUAL ''='' '' '' 1,
        Node syms_atom
          [Leaf TOKEN_LPAR ''('' '' '' 1,
           Node (syms_other ''arith_expr'')
             [Leaf TOKEN_NAME ''b'' [] 1, Leaf (TOKEN_other ''PLUS'') ''+'' '' '' 1,
              Leaf TOKEN_NAME ''c'' '' '' 1],
           Leaf TOKEN_RPAR '')'' [] 1]]"

text \<open>The atom \<^verbatim>\<open>(x)\<close> of \<^verbatim>\<open>return (x)\<close>, and the trailer \<^verbatim>\<open>((a for a in x))\<close> of
  \<^verbatim>\<open>f((a for a in x))\<close>.\<close>

definition ex_paren_name :: tree where
  "ex_paren_name =
     Node syms_atom
       [Leaf TOKEN_LPAR ''('' '' '' 1, Leaf TOKEN_NAME ''x'' [] 1, Leaf TOKEN_RPAR '')'' [] 1]"

definition ex_call_generator :: tree where
  "ex_call_generator =
     Node syms_trailer
       [Leaf TOKEN_LPAR ''('' [] 1,
        Node syms_atom
          [Leaf TOKEN_LPAR ''('' [] 1,
           Node syms_testlist_gexp
             [Leaf TOKEN_NAME ''a'' [] 1,
              Node syms_comp_for
                [Leaf TOKEN_NAME ''for'' '' '' 1, Leaf TOKEN_NAME ''a'' '' '' 1,
                 Leaf TOKEN_NAME ''in'' '' '' 1, Leaf TOKEN_NAME ''x'' '' '' 1]],
           Leaf TOKEN_RPAR '')'' [] 1],
        Leaf TOKEN_RPAR '')'' [] 1]"

text \<open>A file of one statement: the statement, the NEWLINE token on line \<open>n\<close> and the
  ENDMARKER on the line after it.\<close>

definition file_of :: "tree \<Rightarrow> nat \<Rightarrow> tree" where
  "file_of stmt n =
     Node (syms_other ''file_input'')
       [Node (syms_other ''simple_stmt'')
          [stmt, Leaf (TOKEN_other ''NEWLINE'') [CHR 0x0A] [] n],
        Leaf (TOKEN_other ''ENDMARKER'') [] [] (Suc n)]"



text \<open>The file with the one line \<^verbatim>\<open>x = (a != b)\<close>, and the one with \<^verbatim>\<open>x = a != b\<close>.\<close>

definition ex_file_one_line :: tree where
  "ex_file_one_line =
     file_of
       (Node syms_expr_stmt
          [Leaf TOKEN_NAME ''x'' [] 1, Leaf TOKEN_EQUAL ''='' '' '' 1,
           Node syms_atom
             [Leaf TOKEN_LPAR ''('' '' '' 1,
              Node syms_comparison
                [Leaf TOKEN_NAME ''a'' [] 1, Leaf TOKEN_NOTEQUAL ''!='' '' '' 1,
                 Leaf TOKEN_NAME ''b'' '' '' 1],
              Leaf TOKEN_RPAR '')'' [] 1]]) 1"






text \<open>The flags as \<^verbatim>\<open>main\<close> sets them when \<^verbatim>\<open>--debug\<close> is not given.\<close>

definition default_flags :: flags where
  "default_flags = [''debug'' \<mapsto> False]"

section \<open>Properties\<close>

subsection \<open>Shapes of matched trees\<close>

lemmas callback_defs = bind_res_def lookup_def get_or_None_def subscript0_def as_node_def
  child_ref_def replace_at_def clone_def mk_node_def mk_leaf_def kw_def first_if_list_def
  parent_ref_def get_suffix_def

lemma leaf_isD: "leaf_is ty v t \<Longrightarrow> \<exists>p n. t = Leaf ty v p n"
  by (cases t) auto

lemma enclosedD:
  "enclosed lt lv rt rv t = Some x \<Longrightarrow>
     \<exists>ty p1 n1 p2 n2. t = Node ty [Leaf lt lv p1 n1, x, Leaf rt rv p2 n2]"
  by (cases t) (auto simp: enclosed_def split: list.splits if_splits dest!: leaf_isD)

lemma paren_atomD:
  "paren_atom t = Some x \<Longrightarrow>
     \<exists>p1 n1 p2 n2.
        t = Node syms_atom [Leaf TOKEN_LPAR ''('' p1 n1, x, Leaf TOKEN_RPAR '')'' p2 n2]"
  by (auto simp: paren_atom_def split: if_splits dest!: enclosedD)

lemma pair_ofD: "pair_of ty t = Some (a, b) \<Longrightarrow> t = Node ty [a, b]"
  by (cases t) (auto simp: pair_of_def split: list.splits if_splits)

subsection \<open>The inversion table\<close>

lemma dom_OPERATOR_INVERSIONS:
  "dom OPERATOR_INVERSIONS =
     {''=='', ''!='', ''<'', ''>'', ''<='', ''>='', ''in'', ''not in'', ''is'', ''is not''}"
  by (auto simp: OPERATOR_INVERSIONS_def split: if_splits)

lemma invert_table_entry:
  "OPERATOR_INVERSIONS k = Some t \<Longrightarrow>
     \<exists>t'. invert_operator t = Inr t' \<and> strip (str_tree t') = k"
  by (auto simp: OPERATOR_INVERSIONS_def invert_operator_def strip_def isspace_def callback_defs
      split: if_splits)

text \<open>
  C9.  Inverting twice gives back the operator: when the text of an operator, stripped of
  the white space around it, is a key of the table, \<open>invert_operator\<close> succeeds on it and
  again on its result, and the text of the second result, stripped, is the text of the
  operator.
\<close>

theorem invert_operator_involution:
  assumes "strip (str_tree op) \<in> dom OPERATOR_INVERSIONS"
  shows "\<exists>op1 op2. invert_operator op = Inr op1 \<and> invert_operator op1 = Inr op2
           \<and> strip (str_tree op2) = strip (str_tree op)"
proof -
  from assms obtain t where t: "OPERATOR_INVERSIONS (strip (str_tree op)) = Some t"
    by auto
  then have "invert_operator op = Inr t"
    by (simp add: invert_operator_def clone_def)
  moreover from invert_table_entry [OF t] obtain t'
    where "invert_operator t = Inr t'" "strip (str_tree t') = strip (str_tree op)"
    by auto
  ultimately show ?thesis by blast
qed

theorem invert_operator_involution_witness:
  "strip (str_tree (Leaf TOKEN_LESS ''<'' '' '' 1)) \<in> dom OPERATOR_INVERSIONS
   \<and> (\<exists>op1 op2. invert_operator (Leaf TOKEN_LESS ''<'' '' '' 1) = Inr op1
          \<and> invert_operator op1 = Inr op2
          \<and> strip (str_tree op2) = ''<'')"
proof -
  have s: "strip (str_tree (Leaf TOKEN_LESS ''<'' '' '' 1)) = ''<''"
    by (simp add: strip_def isspace_def)
  have d: "strip (str_tree (Leaf TOKEN_LESS ''<'' '' '' 1)) \<in> dom OPERATOR_INVERSIONS"
    unfolding s by (simp add: dom_OPERATOR_INVERSIONS)
  from invert_operator_involution [OF d]
  have "\<exists>op1 op2. invert_operator (Leaf TOKEN_LESS ''<'' '' '' 1) = Inr op1
          \<and> invert_operator op1 = Inr op2 \<and> strip (str_tree op2) = ''<''"
    unfolding s .
  with d show ?thesis by blast
qed


subsection \<open>Rule 1\<close>

lemmas rule1_defs = rule_not_def match_not_test_def simplify_not_operators_def
  invert_operator_def OPERATOR_INVERSIONS_def strip_def isspace_def

lemma match_not_testD:
  "match_not_test t = Some capture \<Longrightarrow>
     \<exists>p n c. t = Node syms_not_test [Leaf TOKEN_NAME ''not'' p n, c]
        \<and> ntype_of c = syms_comparison \<and> capture = map_of [(''comparison'', One [1])]"
  by (cases t) (auto simp: match_not_test_def split: if_splits list.splits dest!: leaf_isD)

lemma two_or_more: "Suc 0 < length xs \<Longrightarrow> \<exists>x y rest. xs = x # y # rest"
  by (cases xs; cases "tl xs") auto

text \<open>What the callback does when the operator is written as a key of the table: the
  operator is replaced by the entry of the table, the \<^verbatim>\<open>not\<close> is gone, and the comparison
  has the prefix that the \<^verbatim>\<open>not\<close> had.\<close>

lemma simplify_not_operators_inverts:
  assumes "rule_not flags t = Some res"
    and "get_at t [1, 1] = Inr op"
    and "OPERATOR_INVERSIONS (strip (str_tree op)) = Some new"
  shows "\<exists>p n ty x rest.
           t = Node syms_not_test [Leaf TOKEN_NAME ''not'' p n, Node ty (x # op # rest)]
           \<and> res = Inr (Node ty (set_prefix p x # new # rest), [])"
proof -
  from assms(1) obtain capture where m: "match_not_test t = Some capture"
    and r: "res = simplify_not_operators flags t capture"
    by (auto simp: rule_not_def split: option.splits)
  from match_not_testD [OF m] obtain p n c where
    t: "t = Node syms_not_test [Leaf TOKEN_NAME ''not'' p n, c]"
    and c: "capture = map_of [(''comparison'', One [1])]" by blast
  from assms(2) t obtain ty x rest where c': "c = Node ty (x # op # rest)"
    by (cases c) (auto split: if_splits dest!: two_or_more)
  show ?thesis using assms(3)
    by (simp add: r t c c' simplify_not_operators_def invert_operator_def callback_defs)
qed

lemma not_examples:
  "str_tree ex_not_eq = ''not a == b''"
  "\<exists>t. rule_not default_flags ex_not_eq = Some (Inr (t, [])) \<and> str_tree t = ''a != b''"
  "str_tree ex_not_is_not = ''not a is not b''"
  "\<exists>t. rule_not default_flags ex_not_is_not = Some (Inr (t, [])) \<and> str_tree t = ''a is b''"
  by (simp_all add: ex_not_eq_def ex_not_is_not_def rule1_defs callback_defs)

text \<open>
  C1.  The selector of rule 1 puts no bound on the number of operands: the chained
  comparison \<^verbatim>\<open>not a == b == c\<close> is matched, and the callback inverts its first operator
  and removes the \<^verbatim>\<open>not\<close>, which leaves \<^verbatim>\<open>a != b == c\<close>.
\<close>

theorem chained_comparison_is_rewritten:
  "str_tree ex_not_chained = ''not a == b == c''
   \<and> rule_not default_flags ex_not_chained =
       Some (Inr (Node syms_comparison
                    [Leaf TOKEN_NAME ''a'' [] 1, Leaf TOKEN_NOTEQUAL ''!='' '' '' 0,
                     Leaf TOKEN_NAME ''b'' '' '' 1, Leaf TOKEN_EQEQUAL ''=='' '' '' 1,
                     Leaf TOKEN_NAME ''c'' '' '' 1], []))
   \<and> str_tree (Node syms_comparison
                    [Leaf TOKEN_NAME ''a'' [] 1, Leaf TOKEN_NOTEQUAL ''!='' '' '' 0,
                     Leaf TOKEN_NAME ''b'' '' '' 1, Leaf TOKEN_EQEQUAL ''=='' '' '' 1,
                     Leaf TOKEN_NAME ''c'' '' '' 1]) = ''a != b == c''"
  by (simp add: ex_not_chained_def rule1_defs callback_defs)

text \<open>
  C2.  The table is looked up with the text of the operator, stripped at both ends only.
  For \<^verbatim>\<open>not a is  not b\<close>, where two blanks separate \<^verbatim>\<open>is\<close> and \<^verbatim>\<open>not\<close>, the selector
  matches and the callback raises \<^verbatim>\<open>KeyError\<close>: nothing is replaced and the \<^verbatim>\<open>not\<close> stays.
\<close>

theorem wide_is_not_raises_KeyError:
  "str_tree ex_not_is_not_wide = ''not a is  not b''
   \<and> rule_not default_flags ex_not_is_not_wide = Some (Inl KeyError)"
  by (simp add: ex_not_is_not_wide_def rule1_defs callback_defs)


subsection \<open>Rule 2\<close>

lemmas rule2_defs = rule_none_def match_none_comparison_def simplify_none_operand_def is_eq_op_def

lemma match_none_comparisonD:
  "match_none_comparison t = Some capture \<Longrightarrow>
     \<exists>x m y. t = Node syms_comparison [x, m, y] \<and> is_eq_op m
        \<and> capture ''op'' = Some (Many [[1]])"
  by (cases t) (auto simp: match_none_comparison_def split: list.splits if_splits)

lemma is_eq_opD:
  "is_eq_op m \<Longrightarrow>
     (\<exists>p n. m = Leaf TOKEN_EQEQUAL ''=='' p n) \<or> (\<exists>p n. m = Leaf TOKEN_NOTEQUAL ''!='' p n)"
  by (auto simp: is_eq_op_def dest: leaf_isD)

text \<open>
  C3.  Every tree that the selector of rule 2 matches is a comparison of three children
  with \<^verbatim>\<open>==\<close> or \<^verbatim>\<open>!=\<close> in the middle, and the callback leaves the same comparison with
  the same first and last child and, in the middle, the name \<^verbatim>\<open>is\<close> for \<^verbatim>\<open>==\<close> and the two
  names \<^verbatim>\<open>is\<close>, \<^verbatim>\<open>not\<close> for \<^verbatim>\<open>!=\<close>.  So \<^verbatim>\<open>x != None\<close> becomes \<^verbatim>\<open>x is not None\<close> and
  \<^verbatim>\<open>None == y\<close> becomes \<^verbatim>\<open>None is y\<close>.
\<close>

theorem simplify_none_operand_replaces_operator:
  assumes "rule_none flags t = Some res"
  shows "\<exists>x m y.
           t = Node syms_comparison [x, m, y]
           \<and> (leaf_is TOKEN_EQEQUAL ''=='' m \<or> leaf_is TOKEN_NOTEQUAL ''!='' m)
           \<and> res = Inr (Node syms_comparison
                          [x,
                           if leaf_is TOKEN_EQEQUAL ''=='' m
                           then Leaf TOKEN_NAME ''is'' '' '' 0
                           else Node syms_comp_op
                                  [Leaf TOKEN_NAME ''is'' '' '' 0, Leaf TOKEN_NAME ''not'' '' '' 0],
                           y],
                        [str_tree m])"
proof -
  from assms obtain capture where m: "match_none_comparison t = Some capture"
    and r: "res = simplify_none_operand flags t capture"
    by (auto simp: rule_none_def split: option.splits)
  from match_none_comparisonD [OF m] obtain x m y where
    t: "t = Node syms_comparison [x, m, y]" and e: "is_eq_op m"
    and c: "capture ''op'' = Some (Many [[1]])" by blast
  from is_eq_opD [OF e]
  have "res = Inr (Node syms_comparison
                          [x,
                           if leaf_is TOKEN_EQEQUAL ''=='' m
                           then Leaf TOKEN_NAME ''is'' '' '' 0
                           else Node syms_comp_op
                                  [Leaf TOKEN_NAME ''is'' '' '' 0, Leaf TOKEN_NAME ''not'' '' '' 0],
                           y],
                        [str_tree m])"
    by (auto simp: r t c simplify_none_operand_def callback_defs)
  with t e show ?thesis unfolding is_eq_op_def by blast
qed

theorem simplify_none_operand_replaces_operator_witness:
  "rule_none default_flags ex_ne_none =
     Some (Inr (Node syms_comparison
                  [Leaf TOKEN_NAME ''x'' [] 1,
                   Node syms_comp_op
                     [Leaf TOKEN_NAME ''is'' '' '' 0, Leaf TOKEN_NAME ''not'' '' '' 0],
                   Leaf TOKEN_NAME ''None'' '' '' 1], ['' !='']))
   \<and> str_tree ex_ne_none = ''x != None''
   \<and> str_tree (Node syms_comparison
                  [Leaf TOKEN_NAME ''x'' [] 1,
                   Node syms_comp_op
                     [Leaf TOKEN_NAME ''is'' '' '' 0, Leaf TOKEN_NAME ''not'' '' '' 0],
                   Leaf TOKEN_NAME ''None'' '' '' 1]) = ''x is not None''
   \<and> rule_none default_flags ex_none_eq =
     Some (Inr (Node syms_comparison
                  [Leaf TOKEN_NAME ''None'' [] 1, Leaf TOKEN_NAME ''is'' '' '' 0,
                   Leaf TOKEN_NAME ''y'' '' '' 1], ['' ==''])) 
   \<and> str_tree ex_none_eq = ''None == y''
   \<and> str_tree (Node syms_comparison
                  [Leaf TOKEN_NAME ''None'' [] 1, Leaf TOKEN_NAME ''is'' '' '' 0,
                   Leaf TOKEN_NAME ''y'' '' '' 1]) = ''None is y''"
proof -
  obtain r1 where r1: "rule_none default_flags ex_ne_none = Some r1"
    by (simp add: rule2_defs ex_ne_none_def)
  obtain r2 where r2: "rule_none default_flags ex_none_eq = Some r2"
    by (simp add: rule2_defs ex_none_eq_def)
  from simplify_none_operand_replaces_operator [OF r1]
  have "r1 = Inr (Node syms_comparison
                  [Leaf TOKEN_NAME ''x'' [] 1,
                   Node syms_comp_op
                     [Leaf TOKEN_NAME ''is'' '' '' 0, Leaf TOKEN_NAME ''not'' '' '' 0],
                   Leaf TOKEN_NAME ''None'' '' '' 1], ['' !=''])"
    by (auto simp: ex_ne_none_def)
  moreover from simplify_none_operand_replaces_operator [OF r2]
  have "r2 = Inr (Node syms_comparison
                  [Leaf TOKEN_NAME ''None'' [] 1, Leaf TOKEN_NAME ''is'' '' '' 0,
                   Leaf TOKEN_NAME ''y'' '' '' 1], ['' ==''])"
    by (auto simp: ex_none_eq_def)
  ultimately show ?thesis using r1 r2
    by (simp add: ex_ne_none_def ex_none_eq_def)
qed

subsection \<open>Rule 3\<close>

lemmas rule3_defs = rule_dict_def rule_set_def match_dict_def match_set_def call_of_def
  comprehension_arg_def pair_of_def enclosed_def bracket_atom_def paren_atom_def
  match_kv_def match_forloop_def kv_captures_def forloop_captures_def
  make_dict_comprehension_def make_set_comprehension_def retype_forloop_def

text \<open>
  C4.  In both selectors \<^verbatim>\<open>forloop\<close> names a group with a single alternative and is bound
  to the node of the for clause, and both callbacks begin with \<^verbatim>\<open>capture['forloop'][0]\<close>.
  On \<^verbatim>\<open>dict([(k, v) for k, v in items])\<close> and on \<^verbatim>\<open>set([a for a in x])\<close> the selectors match
  and the callbacks raise \<^verbatim>\<open>TypeError\<close>; no display is built.
\<close>

theorem comprehension_callbacks_raise_TypeError:
  "str_tree ex_dict_call = ''dict([(k, v) for k, v in items])''
   \<and> rule_dict default_flags ex_dict_call = Some (Inl TypeError)
   \<and> str_tree ex_set_call = ''set([a for a in x])''
   \<and> rule_set default_flags ex_set_call = Some (Inl TypeError)"
  by (simp add: ex_dict_call_def ex_set_call_def rule3_defs callback_defs)







text \<open>The rest of the callback is in order: with the list of the one for clause in the
  place of the node, it builds the display \<^verbatim>\<open>{k: v for k, v in items}\<close>.\<close>

lemma dict_display_from_a_list_capture:
  "\<exists>t. make_dict_comprehension default_flags ex_dict_call
          (map_of [(''kv'', One [1, 1, 1, 0]), (''k'', One [1, 1, 1, 0, 1, 0]),
                   (''v'', One [1, 1, 1, 0, 1, 2]), (''forloop'', Many [[1, 1, 1, 1]])])
        = Inr (t, [])
      \<and> str_tree t = ''{k: v for k, v in items}''"
  by (simp add: ex_dict_call_def make_dict_comprehension_def retype_forloop_def
        callback_defs)

subsection \<open>Rule 4\<close>

lemma match_assignment_formD:
  "match_assignment_form t \<Longrightarrow>
     \<exists>x pe ne p1 n1 i p2 n2.
        t = Node syms_expr_stmt
              [x, Leaf TOKEN_EQUAL ''='' pe ne,
               Node syms_atom [Leaf TOKEN_LPAR ''('' p1 n1, i, Leaf TOKEN_RPAR '')'' p2 n2]]"
  by (cases t)
     (auto simp: match_assignment_form_def split: list.splits dest!: leaf_isD paren_atomD)

lemma match_simple_atomD:
  "match_simple_atom t \<Longrightarrow>
     \<exists>p1 n1 i p2 n2.
        t = Node syms_atom [Leaf TOKEN_LPAR ''('' p1 n1, i, Leaf TOKEN_RPAR '')'' p2 n2]
        \<and> simple_inner i"
  by (auto simp: match_simple_atom_def split: option.splits dest!: paren_atomD)

lemma match_nested_generatorD:
  "match_nested_generator t \<Longrightarrow>
     \<exists>ty p1 n1 q1 m1 x cf q2 m2 p2 n2.
        t = Node ty
              [Leaf TOKEN_LPAR ''('' p1 n1,
               Node syms_atom
                 [Leaf TOKEN_LPAR ''('' q1 m1, Node syms_testlist_gexp [x, cf],
                  Leaf TOKEN_RPAR '')'' q2 m2],
               Leaf TOKEN_RPAR '')'' p2 n2]
        \<and> ntype_of cf = syms_comp_for"
  by (auto simp: match_nested_generator_def split: option.splits
      dest!: paren_atomD enclosedD pair_ofD)

lemma remove_assignment_form:
  "remove_extra_parentheses flags
     (Node syms_expr_stmt
        [x, e, Node syms_atom [Leaf TOKEN_LPAR ''('' p1 n1, i, Leaf TOKEN_RPAR '')'' p2 n2]])
     (map_of [(''assignment_form'', One []), (''outer'', One [2]), (''inner'', One [2, 1])])
   = Inr (if n1 = n2 \<and> ntype_of i \<noteq> syms_testlist_gexp
          then Node syms_expr_stmt [x, e, set_prefix p1 i]
          else Node syms_expr_stmt
                 [x, e,
                  Node syms_atom [Leaf TOKEN_LPAR ''('' p1 n1, i, Leaf TOKEN_RPAR '')'' p2 n2]],
          [])"
  by (simp add: remove_extra_parentheses_def callback_defs)

lemma remove_simple_atom:
  "remove_extra_parentheses flags
     (Node syms_atom [Leaf TOKEN_LPAR ''('' p1 n1, i, Leaf TOKEN_RPAR '')'' p2 n2])
     (map_of [(''outer'', One []), (''inner'', Many [[1]])])
   = Inr (if n1 = n2 then set_prefix p1 i
          else Node syms_atom [Leaf TOKEN_LPAR ''('' p1 n1, i, Leaf TOKEN_RPAR '')'' p2 n2],
          [])"
  by (simp add: remove_extra_parentheses_def callback_defs)

lemma remove_nested_generator:
  "remove_extra_parentheses flags
     (Node ty [l, Node syms_atom [Leaf TOKEN_LPAR ''('' q1 m1, i, Leaf TOKEN_RPAR '')'' q2 m2], r])
     (map_of [(''outer'', One [1]), (''inner'', One [1, 1])])
   = Inr (if m1 = m2 then Node ty [l, set_prefix q1 i, r]
          else Node ty
                 [l, Node syms_atom
                       [Leaf TOKEN_LPAR ''('' q1 m1, i, Leaf TOKEN_RPAR '')'' q2 m2], r],
          [])"
  by (simp add: remove_extra_parentheses_def callback_defs)


lemmas match4_defs = match_parentheses_def match_assignment_form_def match_simple_atom_def
  match_nested_generator_def simple_inner_def paren_atom_def enclosed_def pair_of_def

lemma match_parentheses_cases:
  assumes "match_parentheses t = Some capture"
  obtains
    (assignment) "match_assignment_form t"
      "capture = map_of [(''assignment_form'', One []), (''outer'', One [2]),
                         (''inner'', One [2, 1])]"
  | (simple) "match_simple_atom t"
      "capture = map_of [(''outer'', One []), (''inner'', Many [[1]])]"
      "\<not> match_assignment_form t"
  | (nested) "match_nested_generator t"
      "capture = map_of [(''outer'', One [1]), (''inner'', One [1, 1])]"
      "\<not> match_assignment_form t" "\<not> match_simple_atom t"
  using assms by (auto simp: match_parentheses_def split: if_splits)

lemma match_assignment_formI:
  "match_assignment_form
     (Node syms_expr_stmt
        [x, Leaf TOKEN_EQUAL ''='' pe ne,
         Node syms_atom [Leaf TOKEN_LPAR ''('' p1 n1, i, Leaf TOKEN_RPAR '')'' p2 n2]])"
  by (simp add: match_assignment_form_def paren_atom_def enclosed_def)

lemma match_simple_atomI:
  "simple_inner i \<Longrightarrow>
     \<not> match_assignment_form
          (Node syms_atom [Leaf TOKEN_LPAR ''('' p1 n1, i, Leaf TOKEN_RPAR '')'' p2 n2])
     \<and> match_simple_atom
          (Node syms_atom [Leaf TOKEN_LPAR ''('' p1 n1, i, Leaf TOKEN_RPAR '')'' p2 n2])"
  by (simp add: match_assignment_form_def match_simple_atom_def paren_atom_def enclosed_def)

lemma match_nested_generatorI:
  "ty \<noteq> syms_atom \<Longrightarrow> ntype_of cf = syms_comp_for \<Longrightarrow>
     t = Node ty
           [Leaf TOKEN_LPAR ''('' p1 n1,
            Node syms_atom
              [Leaf TOKEN_LPAR ''('' q1 m1, Node syms_testlist_gexp [x, cf],
               Leaf TOKEN_RPAR '')'' q2 m2],
            Leaf TOKEN_RPAR '')'' p2 n2] \<Longrightarrow>
     \<not> match_assignment_form t \<and> \<not> match_simple_atom t \<and> match_nested_generator t"
  by (simp add: match_assignment_form_def match_simple_atom_def match_nested_generator_def
        paren_atom_def enclosed_def pair_of_def)

lemma nested_generator_not_atom:
  assumes "match_nested_generator t" "\<not> match_simple_atom t"
  shows "ntype_of t \<noteq> syms_atom"
proof
  assume a: "ntype_of t = syms_atom"
  from match_nested_generatorD [OF assms(1)] obtain ty p1 n1 q1 m1 x cf q2 m2 p2 n2 where
    t: "t = Node ty
              [Leaf TOKEN_LPAR ''('' p1 n1,
               Node syms_atom
                 [Leaf TOKEN_LPAR ''('' q1 m1, Node syms_testlist_gexp [x, cf],
                  Leaf TOKEN_RPAR '')'' q2 m2],
               Leaf TOKEN_RPAR '')'' p2 n2]" by blast
  with a have "match_simple_atom t"
    by (simp add: match_simple_atom_def paren_atom_def enclosed_def simple_inner_def)
  with assms(2) show False by simp
qed

text \<open>
  C5, as amended.  The rule matches in exactly three contexts, and the callback does one
  of two things in each.  (1) An assignment \<^verbatim>\<open>x = ( i )\<close>, with any tree \<open>i\<close> between the
  parentheses: when the parentheses are on one line and \<open>i\<close> is not a
  \<open>testlist_gexp\<close>, the atom is replaced by \<open>i\<close> with the prefix of the atom.  (2) An atom
  \<^verbatim>\<open>( i )\<close> where \<open>i\<close> is a NAME, NUMBER or STRING token, a \<open>factor\<close> or an atom
  \<^verbatim>\<open>( ... )\<close>: when the parentheses are on one line, the atom is replaced by \<open>i\<close>.  (3) A
  tree of any type but \<open>atom\<close> with the children \<^verbatim>\<open>(\<close>, the atom \<^verbatim>\<open>( x comp_for )\<close> and
  \<^verbatim>\<open>)\<close>: when the inner parentheses are on one line, the inner atom is replaced by its
  \<open>testlist_gexp\<close>.  (An atom of that form is in context (2).)  In every other case of a
  match the tree stays as it is, and no other tree is matched.  The statement is an
  equivalence: the rule has the outcome \<open>res\<close> on \<open>t\<close> if and only if \<open>t\<close> and \<open>res\<close> are
  as in (1), (2) or (3).
\<close>

theorem parentheses_rule_shapes:
  "rule_parentheses flags t = Some res \<longleftrightarrow>
     (\<exists>x pe ne p1 n1 i p2 n2.
         t = Node syms_expr_stmt
               [x, Leaf TOKEN_EQUAL ''='' pe ne,
                Node syms_atom
                  [Leaf TOKEN_LPAR ''('' p1 n1, i, Leaf TOKEN_RPAR '')'' p2 n2]]
         \<and> res = Inr (if n1 = n2 \<and> ntype_of i \<noteq> syms_testlist_gexp
                      then Node syms_expr_stmt
                             [x, Leaf TOKEN_EQUAL ''='' pe ne, set_prefix p1 i]
                      else t, []))
     \<or> (\<exists>p1 n1 i p2 n2.
         t = Node syms_atom [Leaf TOKEN_LPAR ''('' p1 n1, i, Leaf TOKEN_RPAR '')'' p2 n2]
         \<and> simple_inner i
         \<and> res = Inr (if n1 = n2 then set_prefix p1 i else t, []))
     \<or> (\<exists>ty p1 n1 q1 m1 x cf q2 m2 p2 n2.
         t = Node ty
               [Leaf TOKEN_LPAR ''('' p1 n1,
                Node syms_atom
                  [Leaf TOKEN_LPAR ''('' q1 m1, Node syms_testlist_gexp [x, cf],
                   Leaf TOKEN_RPAR '')'' q2 m2],
                Leaf TOKEN_RPAR '')'' p2 n2]
         \<and> ty \<noteq> syms_atom
         \<and> ntype_of cf = syms_comp_for
         \<and> res = Inr (if m1 = m2
                      then Node ty
                             [Leaf TOKEN_LPAR ''('' p1 n1,
                              set_prefix q1 (Node syms_testlist_gexp [x, cf]),
                              Leaf TOKEN_RPAR '')'' p2 n2]
                      else t, []))"
  (is "?L \<longleftrightarrow> ?A \<or> ?B \<or> ?C")
proof
  assume ?L
  then obtain capture where m: "match_parentheses t = Some capture"
    and r: "res = remove_extra_parentheses flags t capture"
    by (auto simp: rule_parentheses_def split: option.splits)
  from m show "?A \<or> ?B \<or> ?C"
  proof (cases rule: match_parentheses_cases)
    case assignment
    from match_assignment_formD [OF assignment(1)] obtain x pe ne p1 n1 i p2 n2 where
      t: "t = Node syms_expr_stmt
                [x, Leaf TOKEN_EQUAL ''='' pe ne,
                 Node syms_atom [Leaf TOKEN_LPAR ''('' p1 n1, i, Leaf TOKEN_RPAR '')'' p2 n2]]"
      by blast
    have "res = Inr (if n1 = n2 \<and> ntype_of i \<noteq> syms_testlist_gexp
                         then Node syms_expr_stmt
                                [x, Leaf TOKEN_EQUAL ''='' pe ne, set_prefix p1 i]
                         else t, [])"
      unfolding r assignment(2) t remove_assignment_form by simp
    with t have ?A by (intro exI conjI) assumption+
    then show ?thesis ..
  next
    case simple
    from match_simple_atomD [OF simple(1)] obtain p1 n1 i p2 n2 where
      t: "t = Node syms_atom [Leaf TOKEN_LPAR ''('' p1 n1, i, Leaf TOKEN_RPAR '')'' p2 n2]"
      and i: "simple_inner i"
      by blast
    have "res = Inr (if n1 = n2 then set_prefix p1 i else t, [])"
      unfolding r simple(2) t remove_simple_atom by simp
    with t i have ?B by (intro exI conjI) assumption+
    then show ?thesis by blast
  next
    case nested
    note ns = nested(4)
    from match_nested_generatorD [OF nested(1)] obtain ty p1 n1 q1 m1 x cf q2 m2 p2 n2 where
      t: "t = Node ty
                [Leaf TOKEN_LPAR ''('' p1 n1,
                 Node syms_atom
                   [Leaf TOKEN_LPAR ''('' q1 m1, Node syms_testlist_gexp [x, cf],
                    Leaf TOKEN_RPAR '')'' q2 m2],
                 Leaf TOKEN_RPAR '')'' p2 n2]"
      and cf: "ntype_of cf = syms_comp_for"
      by blast
    from nested_generator_not_atom [OF nested(1) ns] t have ty: "ty \<noteq> syms_atom" by simp
    have "res = Inr (if m1 = m2
                         then Node ty
                                [Leaf TOKEN_LPAR ''('' p1 n1,
                                 set_prefix q1 (Node syms_testlist_gexp [x, cf]),
                                 Leaf TOKEN_RPAR '')'' p2 n2]
                         else t, [])"
      unfolding r nested(2) t remove_nested_generator by simp
    with t ty cf have ?C by (intro exI conjI) assumption+
    then show ?thesis by blast
  qed
next
  assume "?A \<or> ?B \<or> ?C"
  then consider (a) ?A | (b) ?B | (c) ?C by blast
  then show ?L
  proof cases
    case a
    then obtain x pe ne p1 n1 i p2 n2 where
      t: "t = Node syms_expr_stmt
                [x, Leaf TOKEN_EQUAL ''='' pe ne,
                 Node syms_atom [Leaf TOKEN_LPAR ''('' p1 n1, i, Leaf TOKEN_RPAR '')'' p2 n2]]"
      and res: "res = Inr (if n1 = n2 \<and> ntype_of i \<noteq> syms_testlist_gexp
                      then Node syms_expr_stmt
                             [x, Leaf TOKEN_EQUAL ''='' pe ne, set_prefix p1 i]
                      else t, [])"
      by blast
    have m: "match_parentheses t
               = Some (map_of [(''assignment_form'', One []), (''outer'', One [2]),
                               (''inner'', One [2, 1])])"
      unfolding t match_parentheses_def using match_assignment_formI by simp
    show ?thesis
      unfolding rule_parentheses_def m option.case res
      unfolding t remove_assignment_form by simp
  next
    case b
    then obtain p1 n1 i p2 n2 where
      t: "t = Node syms_atom [Leaf TOKEN_LPAR ''('' p1 n1, i, Leaf TOKEN_RPAR '')'' p2 n2]"
      and i: "simple_inner i"
      and res: "res = Inr (if n1 = n2 then set_prefix p1 i else t, [])"
      by blast
    have m: "match_parentheses t = Some (map_of [(''outer'', One []), (''inner'', Many [[1]])])"
      unfolding t match_parentheses_def using match_simple_atomI [OF i] by simp
    show ?thesis
      unfolding rule_parentheses_def m option.case res
      unfolding t remove_simple_atom by simp
  next
    case c
    then obtain ty p1 n1 q1 m1 x cf q2 m2 p2 n2 where
      t: "t = Node ty
                [Leaf TOKEN_LPAR ''('' p1 n1,
                 Node syms_atom
                   [Leaf TOKEN_LPAR ''('' q1 m1, Node syms_testlist_gexp [x, cf],
                    Leaf TOKEN_RPAR '')'' q2 m2],
                 Leaf TOKEN_RPAR '')'' p2 n2]"
      and ty: "ty \<noteq> syms_atom" and cf: "ntype_of cf = syms_comp_for"
      and res: "res = Inr (if m1 = m2
                      then Node ty
                             [Leaf TOKEN_LPAR ''('' p1 n1,
                              set_prefix q1 (Node syms_testlist_gexp [x, cf]),
                              Leaf TOKEN_RPAR '')'' p2 n2]
                      else t, [])"
      by blast
    have m: "match_parentheses t = Some (map_of [(''outer'', One [1]), (''inner'', One [1, 1])])"
      unfolding match_parentheses_def using match_nested_generatorI [OF ty cf t] by simp
    show ?thesis
      unfolding rule_parentheses_def m option.case res
      unfolding t remove_nested_generator by simp
  qed
qed


theorem parentheses_rule_shapes_witness:
  "rule_parentheses default_flags ex_assign_sum =
     Some (Inr (Node syms_expr_stmt
                  [Leaf TOKEN_NAME ''a'' [] 1, Leaf TOKEN_EQUAL ''='' '' '' 1,
                   Node (syms_other ''arith_expr'')
                     [Leaf TOKEN_NAME ''b'' '' '' 1, Leaf (TOKEN_other ''PLUS'') ''+'' '' '' 1,
                      Leaf TOKEN_NAME ''c'' '' '' 1]], []))
   \<and> rule_parentheses default_flags ex_paren_name
       = Some (Inr (Leaf TOKEN_NAME ''x'' '' '' 1, []))
   \<and> rule_parentheses default_flags ex_call_generator =
     Some (Inr (Node syms_trailer
                  [Leaf TOKEN_LPAR ''('' [] 1,
                   Node syms_testlist_gexp
                     [Leaf TOKEN_NAME ''a'' [] 1,
                      Node syms_comp_for
                        [Leaf TOKEN_NAME ''for'' '' '' 1, Leaf TOKEN_NAME ''a'' '' '' 1,
                         Leaf TOKEN_NAME ''in'' '' '' 1, Leaf TOKEN_NAME ''x'' '' '' 1]],
                   Leaf TOKEN_RPAR '')'' [] 1], []))
   \<and> rule_parentheses default_flags ex_assign_tuple = Some (Inr (ex_assign_tuple, []))
   \<and> rule_parentheses default_flags ex_multiline = Some (Inr (ex_multiline, []))
   \<and> rule_parentheses default_flags ex_ne_none = None"
proof -
  have 1: "rule_parentheses default_flags ex_assign_sum =
     Some (Inr (Node syms_expr_stmt
                  [Leaf TOKEN_NAME ''a'' [] 1, Leaf TOKEN_EQUAL ''='' '' '' 1,
                   Node (syms_other ''arith_expr'')
                     [Leaf TOKEN_NAME ''b'' '' '' 1, Leaf (TOKEN_other ''PLUS'') ''+'' '' '' 1,
                      Leaf TOKEN_NAME ''c'' '' '' 1]], []))"
    by (rule iffD2 [OF parentheses_rule_shapes]) (simp add: ex_assign_sum_def)
  have 2: "rule_parentheses default_flags ex_paren_name
       = Some (Inr (Leaf TOKEN_NAME ''x'' '' '' 1, []))"
    by (rule iffD2 [OF parentheses_rule_shapes])
       (simp add: ex_paren_name_def simple_inner_def)
  have 3: "rule_parentheses default_flags ex_call_generator =
     Some (Inr (Node syms_trailer
                  [Leaf TOKEN_LPAR ''('' [] 1,
                   Node syms_testlist_gexp
                     [Leaf TOKEN_NAME ''a'' [] 1,
                      Node syms_comp_for
                        [Leaf TOKEN_NAME ''for'' '' '' 1, Leaf TOKEN_NAME ''a'' '' '' 1,
                         Leaf TOKEN_NAME ''in'' '' '' 1, Leaf TOKEN_NAME ''x'' '' '' 1]],
                   Leaf TOKEN_RPAR '')'' [] 1], []))"
    by (rule iffD2 [OF parentheses_rule_shapes]) (simp add: ex_call_generator_def)
  have 4: "rule_parentheses default_flags ex_assign_tuple = Some (Inr (ex_assign_tuple, []))"
    by (rule iffD2 [OF parentheses_rule_shapes]) (simp add: ex_assign_tuple_def)
  have 5: "rule_parentheses default_flags ex_multiline = Some (Inr (ex_multiline, []))"
    by (rule iffD2 [OF parentheses_rule_shapes])
       (simp add: ex_multiline_def simple_inner_def)
  have 6: "rule_parentheses default_flags ex_ne_none = None"
  proof (cases "rule_parentheses default_flags ex_ne_none")
    case None
    then show ?thesis .
  next
    case (Some res)
    from iffD1 [OF parentheses_rule_shapes Some] show ?thesis
      by (simp add: ex_ne_none_def)
  qed
  from 1 2 3 4 5 6 show ?thesis by blast
qed

text \<open>
  C5, as stated, fails: in \<^verbatim>\<open>a = (b + c)\<close> the tree between the parentheses is an
  \<open>arith_expr\<close>, none of NAME, NUMBER, STRING, \<open>factor\<close>, parenthesised atom or generator,
  and the rule unwraps it to \<^verbatim>\<open>a = b + c\<close>.
\<close>

theorem assigned_sum_is_unwrapped:
  "str_tree ex_assign_sum = ''a = (b + c)''
   \<and> get_at ex_assign_sum [2, 1] =
       Inr (Node (syms_other ''arith_expr'')
              [Leaf TOKEN_NAME ''b'' [] 1, Leaf (TOKEN_other ''PLUS'') ''+'' '' '' 1,
               Leaf TOKEN_NAME ''c'' '' '' 1])
   \<and> simple_inner (Node (syms_other ''arith_expr'')
              [Leaf TOKEN_NAME ''b'' [] 1, Leaf (TOKEN_other ''PLUS'') ''+'' '' '' 1,
               Leaf TOKEN_NAME ''c'' '' '' 1]) = False
   \<and> rule_parentheses default_flags ex_assign_sum =
       Some (Inr (Node syms_expr_stmt
                    [Leaf TOKEN_NAME ''a'' [] 1, Leaf TOKEN_EQUAL ''='' '' '' 1,
                     Node (syms_other ''arith_expr'')
                       [Leaf TOKEN_NAME ''b'' '' '' 1,
                        Leaf (TOKEN_other ''PLUS'') ''+'' '' '' 1,
                        Leaf TOKEN_NAME ''c'' '' '' 1]], []))
   \<and> str_tree (Node syms_expr_stmt
                    [Leaf TOKEN_NAME ''a'' [] 1, Leaf TOKEN_EQUAL ''='' '' '' 1,
                     Node (syms_other ''arith_expr'')
                       [Leaf TOKEN_NAME ''b'' '' '' 1,
                        Leaf (TOKEN_other ''PLUS'') ''+'' '' '' 1,
                        Leaf TOKEN_NAME ''c'' '' '' 1]]) = ''a = b + c''"
  by (simp add: ex_assign_sum_def rule_parentheses_def match4_defs
        remove_extra_parentheses_def callback_defs)


text \<open>
  C6.  When the selector of rule 4 has matched and the opening and the closing
  parenthesis of the captured atom \<^verbatim>\<open>outer\<close> have different line numbers, the callback
  returns at once: the tree is the same and nothing is printed.  The name \<^verbatim>\<open>x\<close> in
  parentheses that open on line 1 and close on line 3 stays as it is.
\<close>

theorem parentheses_on_different_lines_are_kept:
  assumes "match_parentheses t = Some capture"
    and "capture ''outer'' = Some (One p)"
    and "get_at t p = Inr outer"
    and "get_lineno (children outer ! 0) \<noteq> get_lineno (children outer ! 2)"
  shows "remove_extra_parentheses flags t capture = Inr (t, [])"
  using assms(1)
proof (cases rule: match_parentheses_cases)
  case assignment
  from match_assignment_formD [OF assignment(1)] obtain x pe ne p1 n1 i p2 n2 where
    t: "t = Node syms_expr_stmt
              [x, Leaf TOKEN_EQUAL ''='' pe ne,
               Node syms_atom [Leaf TOKEN_LPAR ''('' p1 n1, i, Leaf TOKEN_RPAR '')'' p2 n2]]"
    by blast
  from assms(2) have p: "p = [2]" by (simp add: assignment(2))
  from assms(3,4) have "n1 \<noteq> n2" by (auto simp: p t)
  then show ?thesis
    unfolding assignment(2) t remove_assignment_form by simp
next
  case simple
  from match_simple_atomD [OF simple(1)] obtain p1 n1 i p2 n2 where
    t: "t = Node syms_atom [Leaf TOKEN_LPAR ''('' p1 n1, i, Leaf TOKEN_RPAR '')'' p2 n2]"
    by blast
  from assms(2) have p: "p = []" by (simp add: simple(2))
  from assms(3,4) have "n1 \<noteq> n2" by (auto simp: p t)
  then show ?thesis
    unfolding simple(2) t remove_simple_atom by simp
next
  case nested
  from match_nested_generatorD [OF nested(1)] obtain ty p1 n1 q1 m1 x cf q2 m2 p2 n2 where
    t: "t = Node ty
              [Leaf TOKEN_LPAR ''('' p1 n1,
               Node syms_atom
                 [Leaf TOKEN_LPAR ''('' q1 m1, Node syms_testlist_gexp [x, cf],
                  Leaf TOKEN_RPAR '')'' q2 m2],
               Leaf TOKEN_RPAR '')'' p2 n2]"
    by blast
  from assms(2) have p: "p = [1]" by (simp add: nested(2))
  from assms(3,4) have "m1 \<noteq> m2" by (auto simp: p t)
  then show ?thesis
    unfolding nested(2) t remove_nested_generator by simp
qed

theorem parentheses_on_different_lines_are_kept_witness:
  "match_parentheses ex_multiline = Some (map_of [(''outer'', One []), (''inner'', Many [[1]])])
   \<and> map_of [(''outer'', One []), (''inner'', Many [[1]])] ''outer'' = Some (One [])
   \<and> get_at ex_multiline [] = Inr ex_multiline
   \<and> get_lineno (children ex_multiline ! 0) \<noteq> get_lineno (children ex_multiline ! 2)
   \<and> str_tree ex_multiline = [CHR ''('', CHR 0x0A, CHR '' '', CHR '' '', CHR ''x'', CHR 0x0A, CHR '')'']
   \<and> remove_extra_parentheses default_flags ex_multiline
        (map_of [(''outer'', One []), (''inner'', Many [[1]])]) = Inr (ex_multiline, [])"
proof -
  have m: "match_parentheses ex_multiline
             = Some (map_of [(''outer'', One []), (''inner'', Many [[1]])])"
    by (simp add: match4_defs ex_multiline_def)
  have c: "map_of [(''outer'', One []), (''inner'', Many [[1]])] ''outer'' = Some (One [])"
    by simp
  have g: "get_at ex_multiline [] = Inr ex_multiline" by simp
  have l: "get_lineno (children ex_multiline ! 0) \<noteq> get_lineno (children ex_multiline ! 2)"
    by (simp add: ex_multiline_def)
  have s: "str_tree ex_multiline
             = [CHR ''('', CHR 0x0A, CHR '' '', CHR '' '', CHR ''x'', CHR 0x0A, CHR '')'']"
    by (simp add: ex_multiline_def)
  from parentheses_on_different_lines_are_kept [OF m c g l, of default_flags] m c g l s
  show ?thesis by blast
qed

text \<open>
  C7.  When the first alternative of the selector (the assignment) matches and the tree
  between the parentheses is a \<open>testlist_gexp\<close>, which is what the parser builds for a
  tuple display and for a generator, the rule leaves the tree as it is.  So
  \<^verbatim>\<open>a = (b, c)\<close> and \<^verbatim>\<open>a = (b for c in d)\<close> stay.
\<close>

theorem assigned_tuple_or_generator_is_kept:
  assumes "match_assignment_form t"
    and "get_at t [2, 1] = Inr inner"
    and "ntype_of inner = syms_testlist_gexp"
  shows "rule_parentheses flags t = Some (Inr (t, []))"
proof -
  from match_assignment_formD [OF assms(1)] obtain x pe ne p1 n1 i p2 n2 where
    t: "t = Node syms_expr_stmt
              [x, Leaf TOKEN_EQUAL ''='' pe ne,
               Node syms_atom [Leaf TOKEN_LPAR ''('' p1 n1, i, Leaf TOKEN_RPAR '')'' p2 n2]]"
    by blast
  from assms(2) have i: "i = inner" by (simp add: t)
  have m: "match_parentheses t
             = Some (map_of [(''assignment_form'', One []), (''outer'', One [2]),
                             (''inner'', One [2, 1])])"
    using assms(1) by (simp add: match_parentheses_def)
  show ?thesis
    unfolding rule_parentheses_def m option.case
    unfolding t remove_assignment_form using assms(3) i by simp
qed

theorem assigned_tuple_or_generator_is_kept_witness:
  "match_assignment_form ex_assign_tuple
   \<and> (\<exists>inner. get_at ex_assign_tuple [2, 1] = Inr inner \<and> ntype_of inner = syms_testlist_gexp)
   \<and> str_tree ex_assign_tuple = ''a = (b, c)''
   \<and> rule_parentheses default_flags ex_assign_tuple = Some (Inr (ex_assign_tuple, []))
   \<and> match_assignment_form ex_assign_generator
   \<and> (\<exists>inner. get_at ex_assign_generator [2, 1] = Inr inner
          \<and> ntype_of inner = syms_testlist_gexp)
   \<and> str_tree ex_assign_generator = ''a = (b for c in d)''
   \<and> rule_parentheses default_flags ex_assign_generator
       = Some (Inr (ex_assign_generator, []))"
proof -
  have m1: "match_assignment_form ex_assign_tuple"
    by (simp add: match4_defs ex_assign_tuple_def)
  obtain i1 where g1: "get_at ex_assign_tuple [2, 1] = Inr i1"
    and t1: "ntype_of i1 = syms_testlist_gexp"
    by (simp add: ex_assign_tuple_def)
  have m2: "match_assignment_form ex_assign_generator"
    by (simp add: match4_defs ex_assign_generator_def)
  obtain i2 where g2: "get_at ex_assign_generator [2, 1] = Inr i2"
    and t2: "ntype_of i2 = syms_testlist_gexp"
    by (simp add: ex_assign_generator_def)
  have s: "str_tree ex_assign_tuple = ''a = (b, c)''"
    "str_tree ex_assign_generator = ''a = (b for c in d)''"
    by (simp_all add: ex_assign_tuple_def ex_assign_generator_def)
  from assigned_tuple_or_generator_is_kept [OF m1 g1 t1, of default_flags]
    assigned_tuple_or_generator_is_kept [OF m2 g2 t2, of default_flags]
    m1 g1 t1 m2 g2 t2 s
  show ?thesis by blast
qed


subsection \<open>Standard output\<close>

lemma printed_bind: "(\<And>v. printed (f v) = []) \<Longrightarrow> printed (bind_res m f) = []"
  by (cases m) (simp_all add: bind_res_def printed_def)

lemma printed_case_prod:
  "(\<And>a b. printed (f a b) = []) \<Longrightarrow> printed (case v of (a, b) \<Rightarrow> f a b) = []"
  by (cases v) simp

lemma printed_if:
  "printed x = [] \<Longrightarrow> printed y = [] \<Longrightarrow> printed (if c then x else y) = []"
  by simp

lemma printed_Inr_Nil: "printed (Inr (t, [])) = []"
  by (simp add: printed_def)

lemma callbacks_without_print:
  "printed (simplify_not_operators flags t capture) = []"
  "printed (make_dict_comprehension flags t capture) = []"
  "printed (make_set_comprehension flags t capture) = []"
  "printed (remove_extra_parentheses flags t capture) = []"
  unfolding simplify_not_operators_def make_dict_comprehension_def
    make_set_comprehension_def remove_extra_parentheses_def
  by (intro printed_bind printed_case_prod printed_if printed_Inr_Nil)+

lemma rule_none_prints:
  assumes "rule_none flags t = Some res"
  shows "\<exists>op. get_at t [1] = Inr op \<and> printed res = [str_tree op]"
proof -
  from assms obtain capture where m: "match_none_comparison t = Some capture"
    and r: "res = simplify_none_operand flags t capture"
    by (auto simp: rule_none_def split: option.splits)
  from match_none_comparisonD [OF m] obtain x m y where
    t: "t = Node syms_comparison [x, m, y]" and e: "is_eq_op m"
    and c: "capture ''op'' = Some (Many [[1]])" by blast
  from is_eq_opD [OF e] have "printed res = [str_tree m]"
    by (auto simp: r t c simplify_none_operand_def callback_defs printed_def)
  then show ?thesis by (simp add: t)
qed

text \<open>
  C10.  On every match of rule 2 the callback prints one line, the text of the matched
  operator (the middle child, with its prefix), and it does the same whatever is stored
  under \<^verbatim>\<open>debug\<close> in the flags.  The other four callbacks print nothing, on any tree
  and any capture set.
\<close>

theorem only_simplify_none_operand_prints:
  "(rule_none flags t = Some res \<longrightarrow>
      (\<exists>op. get_at t [1] = Inr op \<and> printed res = [str_tree op]))
   \<and> simplify_none_operand (flags(''debug'' \<mapsto> True)) t capture
       = simplify_none_operand (flags(''debug'' \<mapsto> False)) t capture
   \<and> printed (simplify_not_operators flags t capture) = []
   \<and> printed (make_dict_comprehension flags t capture) = []
   \<and> printed (make_set_comprehension flags t capture) = []
   \<and> printed (remove_extra_parentheses flags t capture) = []"
proof -
  have "\<exists>op. get_at t [1] = Inr op \<and> printed res = [str_tree op]"
    if "rule_none flags t = Some res"
    using that by (rule rule_none_prints)
  moreover have "simplify_none_operand (flags(''debug'' \<mapsto> True)) t capture
       = simplify_none_operand (flags(''debug'' \<mapsto> False)) t capture"
    by (simp add: simplify_none_operand_def)
  ultimately show ?thesis
    by (simp add: callbacks_without_print)
qed

theorem only_simplify_none_operand_prints_witness:
  "\<exists>res. rule_none default_flags ex_ne_none = Some res \<and> printed res = ['' !='']"
proof -
  obtain res where r: "rule_none default_flags ex_ne_none = Some res"
    by (simp add: rule2_defs ex_ne_none_def)
  from only_simplify_none_operand_prints [of default_flags ex_ne_none res] r
  obtain op where "get_at ex_ne_none [1] = Inr op" "printed res = [str_tree op]"
    by blast
  then have "printed res = ['' !='']" by (auto simp: ex_ne_none_def)
  with r show ?thesis by blast
qed


subsection \<open>Running the rules twice\<close>





subsection \<open>What the passes change\<close>

























text \<open>The one-line file of the second run is not settled: the assignment is matched, its
  parentheses are on one line, and a comparison stands between them.\<close>

lemma one_line_file_is_not_settled: "settled ex_file_one_line = False"
  by (simp add: settled_def ex_file_one_line_def file_of_def match4_defs guarded_def
        lines_differ_def)

end
